theory Spec2Isabelle
  imports Complex_Main
begin

section \<open>Floating-point values\<close>

text \<open>
  The quaternion module of \<^verbatim>\<open>src/gui/math3d/qquaternion.cpp\<close> computes on C++
  \<^verbatim>\<open>float\<close>, the binary32 format of IEEE 754. A float is a value of \<open>flt\<close>:
  \<open>Fin r\<close> is the finite number \<open>r\<close> (\<open>Fin 0\<close> is the zero with a positive sign),
  \<open>NegZero\<close> is the zero with a negative sign, \<open>PInf\<close> and \<open>NInf\<close> are the two
  infinities, and \<open>NaN\<close> is not a number.
\<close>

datatype flt = Fin real | NegZero | PInf | NInf | NaN

definition is_finite :: "flt \<Rightarrow> bool" where
  "is_finite a = (case a of Fin x \<Rightarrow> True | NegZero \<Rightarrow> True | PInf \<Rightarrow> False | NInf \<Rightarrow> False | NaN \<Rightarrow> False)"

text \<open>The number that a finite float stands for, and the sign bit of a float.\<close>

definition val :: "flt \<Rightarrow> real" where
  "val a = (case a of Fin x \<Rightarrow> x | NegZero \<Rightarrow> 0 | PInf \<Rightarrow> 0 | NInf \<Rightarrow> 0 | NaN \<Rightarrow> 0)"

definition signbit :: "flt \<Rightarrow> bool" where
  "signbit a = (case a of Fin x \<Rightarrow> x < 0 | NegZero \<Rightarrow> True | PInf \<Rightarrow> False | NInf \<Rightarrow> True | NaN \<Rightarrow> False)"

subsection \<open>Rounding\<close>

text \<open>
  The result of an operation is its exact result rounded to the nearest binary32 number,
  a tie going to the one whose last bit is even. A binary32 number has 24 bits of
  precision: between \<open>2\<^sup>e\<close> and \<open>2\<^sup>e\<^sup>+\<^sup>1\<close> the numbers are the multiples of
  \<open>2\<^sup>e\<^sup>-\<^sup>2\<^sup>3\<close>, and below \<open>2\<^sup>-\<^sup>1\<^sup>2\<^sup>6\<close> (the subnormal numbers) the multiples of
  \<open>2\<^sup>-\<^sup>1\<^sup>4\<^sup>9\<close>. A result that rounds beyond the largest number, \<open>(2\<^sup>2\<^sup>4 - 1) 2\<^sup>1\<^sup>0\<^sup>4\<close>,
  overflows to an infinity. Each operation of the source is rounded on its own: the
  compiler is taken not to fuse a product with a sum, nor to keep a result in a wider
  format.
\<close>

definition round_even :: "real \<Rightarrow> int" where
  "round_even x =
     (let f = \<lfloor>x\<rfloor> in
      if x - of_int f < 1 / 2 then f
      else if x - of_int f > 1 / 2 then f + 1
      else if even f then f else f + 1)"

definition ulp_exp :: "real \<Rightarrow> int" where
  "ulp_exp x = max (\<lfloor>log 2 \<bar>x\<bar>\<rfloor> - 23) (- 149)"

definition rne :: "real \<Rightarrow> real" where
  "rne x = (if x = 0 then 0 else of_int (round_even (x / 2 powi ulp_exp x)) * 2 powi ulp_exp x)"

definition max_float :: real where
  "max_float = (2 ^ 24 - 1) * 2 ^ 104"

text \<open>
  \<open>to_float negative r\<close> is the float for the exact result \<open>r\<close>; \<open>negative\<close> is
  the sign that a zero result takes.
\<close>

definition to_float :: "bool \<Rightarrow> real \<Rightarrow> flt" where
  "to_float negative r =
     (let y = rne r in
      if y > max_float then PInf
      else if y < - max_float then NInf
      else if y = 0 then (if negative then NegZero else Fin 0)
      else Fin y)"

subsection \<open>Arithmetic and comparison\<close>

text \<open>
  The operators of C++ on floats, with the special cases of IEEE 754: a NaN operand
  gives NaN, as do \<open>\<infinity> - \<infinity>\<close>, \<open>0 \<times> \<infinity>\<close>, \<open>0 / 0\<close> and \<open>\<infinity> / \<infinity>\<close>; a non-zero
  number divided by zero is an infinity; the sign of a product or quotient is the
  exclusive or of the signs of its operands; a sum that is exactly zero is \<open>+0\<close> unless
  both operands are \<open>-0\<close>. A comparison with NaN is false, and the two zeros are equal.
\<close>

definition fadd :: "flt \<Rightarrow> flt \<Rightarrow> flt" where
  "fadd a b =
     (if a = NaN \<or> b = NaN then NaN
      else if a = PInf then (if b = NInf then NaN else PInf)
      else if a = NInf then (if b = PInf then NaN else NInf)
      else if b = PInf then PInf
      else if b = NInf then NInf
      else to_float (if val a + val b = 0 then signbit a \<and> signbit b else val a + val b < 0)
             (val a + val b))"

definition fneg :: "flt \<Rightarrow> flt" where
  "fneg a =
     (case a of
        Fin x \<Rightarrow> if x = 0 then NegZero else Fin (- x)
      | NegZero \<Rightarrow> Fin 0
      | PInf \<Rightarrow> NInf
      | NInf \<Rightarrow> PInf
      | NaN \<Rightarrow> NaN)"

definition fmul :: "flt \<Rightarrow> flt \<Rightarrow> flt" where
  "fmul a b =
     (if a = NaN \<or> b = NaN then NaN
      else if is_finite a \<and> is_finite b then to_float (signbit a \<noteq> signbit b) (val a * val b)
      else if (is_finite a \<and> val a = 0) \<or> (is_finite b \<and> val b = 0) then NaN
      else if signbit a \<noteq> signbit b then NInf
      else PInf)"

definition fdiv :: "flt \<Rightarrow> flt \<Rightarrow> flt" where
  "fdiv a b =
     (if a = NaN \<or> b = NaN then NaN
      else if is_finite a \<and> is_finite b then
        (if val b = 0 then
           (if val a = 0 then NaN else if signbit a \<noteq> signbit b then NInf else PInf)
         else to_float (signbit a \<noteq> signbit b) (val a / val b))
      else if is_finite a then (if signbit a \<noteq> signbit b then NegZero else Fin 0)
      else if is_finite b then (if signbit a \<noteq> signbit b then NInf else PInf)
      else NaN)"

instantiation flt :: "{zero, one, plus, minus, uminus, times, inverse, abs, ord}"
begin

definition zero_flt :: flt where
  "zero_flt = Fin 0"

definition one_flt :: flt where
  "one_flt = Fin 1"

definition plus_flt :: "flt \<Rightarrow> flt \<Rightarrow> flt" where
  "plus_flt a b = fadd a b"

definition uminus_flt :: "flt \<Rightarrow> flt" where
  "uminus_flt a = fneg a"

definition minus_flt :: "flt \<Rightarrow> flt \<Rightarrow> flt" where
  "minus_flt a b = fadd a (fneg b)"

definition times_flt :: "flt \<Rightarrow> flt \<Rightarrow> flt" where
  "times_flt a b = fmul a b"

definition divide_flt :: "flt \<Rightarrow> flt \<Rightarrow> flt" where
  "divide_flt a b = fdiv a b"

definition inverse_flt :: "flt \<Rightarrow> flt" where
  "inverse_flt a = fdiv (Fin 1) a"

definition abs_flt :: "flt \<Rightarrow> flt" where
  "abs_flt a =
     (case a of Fin x \<Rightarrow> Fin \<bar>x\<bar> | NegZero \<Rightarrow> Fin 0 | PInf \<Rightarrow> PInf | NInf \<Rightarrow> PInf | NaN \<Rightarrow> NaN)"

definition less_eq_flt :: "flt \<Rightarrow> flt \<Rightarrow> bool" where
  "less_eq_flt a b =
     (a \<noteq> NaN \<and> b \<noteq> NaN \<and> (a = NInf \<or> b = PInf \<or> (is_finite a \<and> is_finite b \<and> val a \<le> val b)))"

definition less_flt :: "flt \<Rightarrow> flt \<Rightarrow> bool" where
  "less_flt a b =
     (a \<noteq> NaN \<and> b \<noteq> NaN \<and>
      ((a = NInf \<and> b \<noteq> NInf) \<or> (b = PInf \<and> a \<noteq> PInf) \<or>
       (is_finite a \<and> is_finite b \<and> val a < val b)))"

instance ..

end

text \<open>The C++ comparison \<^verbatim>\<open>a == b\<close> on floats.\<close>

definition feq :: "flt \<Rightarrow> flt \<Rightarrow> bool" where
  "feq a b =
     (a \<noteq> NaN \<and> b \<noteq> NaN \<and>
      ((a = PInf \<and> b = PInf) \<or> (a = NInf \<and> b = NInf) \<or>
       (is_finite a \<and> is_finite b \<and> val a = val b)))"

subsection \<open>The functions of \<^verbatim>\<open><cmath>\<close>\<close>

text \<open>
  \<^verbatim>\<open>std::sqrt\<close> is correctly rounded by IEEE 754. The other functions of the C
  library are modelled as correctly rounded too; the library of a platform may differ from
  that in the last bit of a result, so the theorems below use their results through
  bounds, or at arguments where every library is exact.
\<close>

definition std_sqrt :: "flt \<Rightarrow> flt" where
  "std_sqrt a =
     (case a of
        Fin x \<Rightarrow> if x < 0 then NaN else to_float False (sqrt x)
      | NegZero \<Rightarrow> NegZero
      | PInf \<Rightarrow> PInf
      | NInf \<Rightarrow> NaN
      | NaN \<Rightarrow> NaN)"

definition std_sin :: "flt \<Rightarrow> flt" where
  "std_sin a = (if is_finite a then to_float (signbit a) (sin (val a)) else NaN)"

definition std_cos :: "flt \<Rightarrow> flt" where
  "std_cos a = (if is_finite a then to_float False (cos (val a)) else NaN)"

definition std_acos :: "flt \<Rightarrow> flt" where
  "std_acos a =
     (if is_finite a \<and> - 1 \<le> val a \<and> val a \<le> 1 then to_float False (arccos (val a)) else NaN)"

definition std_asin :: "flt \<Rightarrow> flt" where
  "std_asin a =
     (if is_finite a \<and> - 1 \<le> val a \<and> val a \<le> 1 then to_float (signbit a) (arcsin (val a))
      else NaN)"

text \<open>
  \<^verbatim>\<open>std::atan2(y, x)\<close>: the angle of the point \<open>(x, y)\<close>, with the sign of \<open>y\<close>;
  the sign of a zero \<open>x\<close> decides between the angles \<open>0\<close> and \<open>\<pi>\<close>.
\<close>

definition std_atan2 :: "flt \<Rightarrow> flt \<Rightarrow> flt" where
  "std_atan2 y x =
     (if y = NaN \<or> x = NaN then NaN
      else
        (let angle =
               (if is_finite y \<and> is_finite x then
                  (if val y = 0 then (if signbit x then pi else 0)
                   else if val x = 0 then pi / 2
                   else if 0 < val x then arctan (\<bar>val y\<bar> / val x)
                   else pi - arctan (\<bar>val y\<bar> / - val x))
                else if is_finite y then (if x = PInf then 0 else pi)
                else if is_finite x then pi / 2
                else if x = PInf then pi / 4
                else 3 * pi / 4)
         in to_float (signbit y) (if signbit y then - angle else angle)))"

text \<open>
  \<^verbatim>\<open>std::copysign(a, b)\<close>: the magnitude of \<open>a\<close> with the sign of \<open>b\<close>. The sign bit
  of a NaN is not modelled: with a NaN for \<open>b\<close> the result is left as \<open>NaN\<close>.
\<close>

definition std_copysign :: "flt \<Rightarrow> flt \<Rightarrow> flt" where
  "std_copysign a b = (if b = NaN then NaN else if signbit b then - \<bar>a\<bar> else \<bar>a\<bar>)"

subsection \<open>Helpers of QtCore\<close>

text \<open>
  Modelled from the spec: \<^verbatim>\<open>qFuzzyIsNull\<close>, \<^verbatim>\<open>qFuzzyCompare\<close>, \<^verbatim>\<open>qMin\<close>,
  \<^verbatim>\<open>qHypot\<close>, \<^verbatim>\<open>qDegreesToRadians\<close> and \<^verbatim>\<open>qRadiansToDegrees\<close> are declared in
  QtCore's headers, which are not among the source files. The spec describes the
  fuzzy comparison as "scale-relative comparison for non-zero magnitudes, small absolute
  epsilon for near-zero": \<^verbatim>\<open>qFuzzyCompare\<close> is the relative test, of one part in
  100000 of the smaller magnitude, and \<^verbatim>\<open>qFuzzyIsNull\<close> the absolute one, whose
  threshold \<^verbatim>\<open>0.00001f\<close> the source of \<^verbatim>\<open>getEulerAngles\<close> quotes ("copied from
  qFuzzyIsNull()"). A threshold is written as its decimal value: no binary32 number
  lies between a decimal threshold of the source and the float nearest to it, so that the
  comparison of a binary32 number with either has the same result.

  The hypotenuse is the "Euclidean norm" of its arguments, computed so that it
  "avoids" the overflow and underflow of the squares: the exact norm, rounded once. An
  infinite argument gives \<open>+\<infinity>\<close>, as for \<^verbatim>\<open>std::hypot\<close>.

  The two conversion factors are the floats \<^verbatim>\<open>float(M_PI / 180)\<close> and
  \<^verbatim>\<open>float(180 / M_PI)\<close>, and \<open>float_pi_2\<close> is \<^verbatim>\<open>float(M_PI_2)\<close>: the binary32
  numbers nearest to \<open>\<pi> / 180\<close>, \<open>180 / \<pi>\<close> and \<open>\<pi> / 2\<close>.
\<close>

definition qMin :: "flt \<Rightarrow> flt \<Rightarrow> flt" where
  "qMin a b = (if a < b then a else b)"

definition qFuzzyIsNull :: "flt \<Rightarrow> bool" where
  "qFuzzyIsNull f = (\<bar>f\<bar> \<le> Fin (1 / 100000))"

definition qFuzzyCompare :: "flt \<Rightarrow> flt \<Rightarrow> bool" where
  "qFuzzyCompare p1 p2 = (\<bar>p1 - p2\<bar> * Fin 100000 \<le> qMin \<bar>p1\<bar> \<bar>p2\<bar>)"

definition qHypot3 :: "flt \<Rightarrow> flt \<Rightarrow> flt \<Rightarrow> flt" where
  "qHypot3 x y z =
     (if \<bar>x\<bar> = PInf \<or> \<bar>y\<bar> = PInf \<or> \<bar>z\<bar> = PInf then PInf
      else if x = NaN \<or> y = NaN \<or> z = NaN then NaN
      else to_float False (sqrt (val x * val x + val y * val y + val z * val z)))"

definition qHypot4 :: "flt \<Rightarrow> flt \<Rightarrow> flt \<Rightarrow> flt \<Rightarrow> flt" where
  "qHypot4 x y z w =
     (if \<bar>x\<bar> = PInf \<or> \<bar>y\<bar> = PInf \<or> \<bar>z\<bar> = PInf \<or> \<bar>w\<bar> = PInf then PInf
      else if x = NaN \<or> y = NaN \<or> z = NaN \<or> w = NaN then NaN
      else to_float False (sqrt (val x * val x + val y * val y + val z * val z + val w * val w)))"

definition float_pi_180 :: flt where
  "float_pi_180 = Fin (9370165 / 2 ^ 29)"

definition float_180_pi :: flt where
  "float_180_pi = Fin (15019745 / 2 ^ 18)"

definition float_pi_2 :: flt where
  "float_pi_2 = Fin (13176795 / 2 ^ 23)"

definition qDegreesToRadians :: "flt \<Rightarrow> flt" where
  "qDegreesToRadians degrees = degrees * float_pi_180"

definition qRadiansToDegrees :: "flt \<Rightarrow> flt" where
  "qRadiansToDegrees radians = radians * float_180_pi"


section \<open>Vectors and matrices\<close>

text \<open>
  Modelled from the spec: \<^verbatim>\<open>QVector3D\<close> and \<^verbatim>\<open>QMatrix3x3\<close> are classes
  of QtGui whose headers are not among the source files. The spec has a direction
  "normalized" before use and a rotation matrix as "a dense row/column-indexed float
  matrix". A vector is normalised as the quaternion is: unchanged when its length is
  within the tolerance of one, the null vector when its length is fuzzily zero, divided by
  its length otherwise (QtGui tests the first case by \<^verbatim>\<open>qFuzzyIsNull(len - 1.0f)\<close>).
\<close>

record QVector3D =
  vx :: flt
  vy :: flt
  vz :: flt

definition mkVector3D :: "flt \<Rightarrow> flt \<Rightarrow> flt \<Rightarrow> QVector3D" where
  "mkVector3D xpos ypos zpos = \<lparr>vx = xpos, vy = ypos, vz = zpos\<rparr>"

definition v3_length :: "QVector3D \<Rightarrow> flt" where
  "v3_length v = qHypot3 (vx v) (vy v) (vz v)"

definition v3_lengthSquared :: "QVector3D \<Rightarrow> flt" where
  "v3_lengthSquared v = vx v * vx v + vy v * vy v + vz v * vz v"

definition v3_divide :: "QVector3D \<Rightarrow> flt \<Rightarrow> QVector3D" where
  "v3_divide v divisor = mkVector3D (vx v / divisor) (vy v / divisor) (vz v / divisor)"

definition v3_normalized :: "QVector3D \<Rightarrow> QVector3D" where
  "v3_normalized v =
     (let len = v3_length v in
      if qFuzzyIsNull (len - 1) then v
      else if qFuzzyIsNull len then mkVector3D 0 0 0
      else mkVector3D (vx v / len) (vy v / len) (vz v / len))"

definition v3_normalize :: "QVector3D \<Rightarrow> QVector3D" where
  "v3_normalize v =
     (let len = v3_length v in
      if qFuzzyIsNull (len - 1) \<or> qFuzzyIsNull len then v
      else v\<lparr>vx := vx v / len, vy := vy v / len, vz := vz v / len\<rparr>)"

definition v3_dotProduct :: "QVector3D \<Rightarrow> QVector3D \<Rightarrow> flt" where
  "v3_dotProduct v1 v2 = vx v1 * vx v2 + vy v1 * vy v2 + vz v1 * vz v2"

definition v3_crossProduct :: "QVector3D \<Rightarrow> QVector3D \<Rightarrow> QVector3D" where
  "v3_crossProduct v1 v2 =
     mkVector3D (vy v1 * vz v2 - vz v1 * vy v2)
                (vz v1 * vx v2 - vx v1 * vz v2)
                (vx v1 * vy v2 - vy v1 * vx v2)"

definition finiteV :: "QVector3D \<Rightarrow> bool" where
  "finiteV v = (is_finite (vx v) \<and> is_finite (vy v) \<and> is_finite (vz v))"

text \<open>A 3x3 matrix is read as \<open>rot3x3 row column\<close>, both indices in \<open>{0, 1, 2}\<close>.\<close>

type_synonym QMatrix3x3 = "nat \<Rightarrow> nat \<Rightarrow> flt"

definition mkMatrix3x3 ::
  "flt \<Rightarrow> flt \<Rightarrow> flt \<Rightarrow> flt \<Rightarrow> flt \<Rightarrow> flt \<Rightarrow> flt \<Rightarrow> flt \<Rightarrow> flt \<Rightarrow> QMatrix3x3" where
  "mkMatrix3x3 m00 m01 m02 m10 m11 m12 m20 m21 m22 =
     (\<lambda>row col. [[m00, m01, m02], [m10, m11, m12], [m20, m21, m22]] ! row ! col)"

definition finiteM :: "QMatrix3x3 \<Rightarrow> bool" where
  "finiteM m =
     (is_finite (m 0 0) \<and> is_finite (m 0 1) \<and> is_finite (m 0 2) \<and>
      is_finite (m 1 0) \<and> is_finite (m 1 1) \<and> is_finite (m 1 2) \<and>
      is_finite (m 2 0) \<and> is_finite (m 2 1) \<and> is_finite (m 2 2))"

section \<open>Quaternions\<close>

record QQuaternion =
  wp :: flt
  xp :: flt
  yp :: flt
  zp :: flt

text \<open>
  Modelled from the spec: the constructors and the inline members and operators of the
  class live in the header \<^verbatim>\<open>qquaternion.h\<close>, which is not among the source files.
  They are taken from the spec ("default constructs identity quaternion (1,0,0,0)",
  \<^verbatim>\<open>isNull()\<close> "true iff all four components are exactly zero") and from the
  documentation comments of \<^verbatim>\<open>qquaternion.cpp\<close>: the sum "each component is added
  separately", the product with a factor, the division of "all components" by a divisor,
  the negation, the dot product, and the fuzzy comparison of two quaternions component by
  component.
\<close>

definition mkQuaternion :: "flt \<Rightarrow> flt \<Rightarrow> flt \<Rightarrow> flt \<Rightarrow> QQuaternion" where
  "mkQuaternion scalar xpos ypos zpos = \<lparr>wp = scalar, xp = xpos, yp = ypos, zp = zpos\<rparr>"

definition identityQuaternion :: QQuaternion where
  "identityQuaternion = mkQuaternion 1 0 0 0"

definition isNull :: "QQuaternion \<Rightarrow> bool" where
  "isNull q = (feq (wp q) 0 \<and> feq (xp q) 0 \<and> feq (yp q) 0 \<and> feq (zp q) 0)"

definition dotProduct :: "QQuaternion \<Rightarrow> QQuaternion \<Rightarrow> flt" where
  "dotProduct q1 q2 = wp q1 * wp q2 + xp q1 * xp q2 + yp q1 * yp q2 + zp q1 * zp q2"

definition q_plus :: "QQuaternion \<Rightarrow> QQuaternion \<Rightarrow> QQuaternion" where
  "q_plus q1 q2 = mkQuaternion (wp q1 + wp q2) (xp q1 + xp q2) (yp q1 + yp q2) (zp q1 + zp q2)"

definition q_uminus :: "QQuaternion \<Rightarrow> QQuaternion" where
  "q_uminus q = mkQuaternion (- wp q) (- xp q) (- yp q) (- zp q)"

definition q_times_factor :: "QQuaternion \<Rightarrow> flt \<Rightarrow> QQuaternion" where
  "q_times_factor q factor =
     mkQuaternion (wp q * factor) (xp q * factor) (yp q * factor) (zp q * factor)"

definition q_divide :: "QQuaternion \<Rightarrow> flt \<Rightarrow> QQuaternion" where
  "q_divide q divisor =
     mkQuaternion (wp q / divisor) (xp q / divisor) (yp q / divisor) (zp q / divisor)"

definition qFuzzyCompareQ :: "QQuaternion \<Rightarrow> QQuaternion \<Rightarrow> bool" where
  "qFuzzyCompareQ q1 q2 =
     (qFuzzyCompare (wp q1) (wp q2) \<and> qFuzzyCompare (xp q1) (xp q2) \<and>
      qFuzzyCompare (yp q1) (yp q2) \<and> qFuzzyCompare (zp q1) (zp q2))"

text \<open>The operator \<^verbatim>\<open>==\<close> of two quaternions: "an exact floating-point comparison".\<close>

definition q_equal :: "QQuaternion \<Rightarrow> QQuaternion \<Rightarrow> bool" where
  "q_equal q1 q2 =
     (feq (wp q1) (wp q2) \<and> feq (xp q1) (xp q2) \<and> feq (yp q1) (yp q2) \<and> feq (zp q1) (zp q2))"

definition finiteQ :: "QQuaternion \<Rightarrow> bool" where
  "finiteQ q = (is_finite (wp q) \<and> is_finite (xp q) \<and> is_finite (yp q) \<and> is_finite (zp q))"

subsection \<open>Length and normalisation\<close>

definition length_q :: "QQuaternion \<Rightarrow> flt" where
  "length_q q = qHypot4 (xp q) (yp q) (zp q) (wp q)"

definition lengthSquared :: "QQuaternion \<Rightarrow> flt" where
  "lengthSquared q = xp q * xp q + yp q * yp q + zp q * zp q + wp q * wp q"

definition normalized :: "QQuaternion \<Rightarrow> QQuaternion" where
  "normalized q =
     (let scale = length_q q in
      if qFuzzyCompare scale 1 then q
      else if qFuzzyIsNull scale then mkQuaternion 0 0 0 0
      else q_divide q scale)"

definition normalize_q :: "QQuaternion \<Rightarrow> QQuaternion" where
  "normalize_q q =
     (let len = length_q q in
      if qFuzzyCompare len 1 \<or> qFuzzyIsNull len then q
      else q\<lparr>xp := xp q / len, yp := yp q / len, zp := zp q / len, wp := wp q / len\<rparr>)"

subsection \<open>Rotating a vector\<close>

text \<open>
  Modelled from the spec: the inline \<^verbatim>\<open>operator*\<close> of two quaternions "implements
  the standard (non-commutative) Hamilton product", and \<^verbatim>\<open>conjugated()\<close> "negates
  the vector part, keeps scalar part"; both live in the header.
\<close>

definition q_times :: "QQuaternion \<Rightarrow> QQuaternion \<Rightarrow> QQuaternion" where
  "q_times q1 q2 =
     mkQuaternion
       (wp q1 * wp q2 - xp q1 * xp q2 - yp q1 * yp q2 - zp q1 * zp q2)
       (wp q1 * xp q2 + xp q1 * wp q2 + yp q1 * zp q2 - zp q1 * yp q2)
       (wp q1 * yp q2 - xp q1 * zp q2 + yp q1 * wp q2 + zp q1 * xp q2)
       (wp q1 * zp q2 + xp q1 * yp q2 - yp q1 * xp q2 + zp q1 * wp q2)"

definition conjugated :: "QQuaternion \<Rightarrow> QQuaternion" where
  "conjugated q = mkQuaternion (wp q) (- xp q) (- yp q) (- zp q)"

definition mkQuaternionV :: "flt \<Rightarrow> QVector3D \<Rightarrow> QQuaternion" where
  "mkQuaternionV scalar vector = mkQuaternion scalar (vx vector) (vy vector) (vz vector)"

definition vector :: "QQuaternion \<Rightarrow> QVector3D" where
  "vector q = mkVector3D (xp q) (yp q) (zp q)"

definition rotatedVector :: "QQuaternion \<Rightarrow> QVector3D \<Rightarrow> QVector3D" where
  "rotatedVector q v = vector (q_times (q_times q (mkQuaternionV 0 v)) (conjugated q))"

subsection \<open>Axis and angle\<close>

definition fromAxisAndAngle :: "QVector3D \<Rightarrow> flt \<Rightarrow> QQuaternion" where
  "fromAxisAndAngle axis angle =
     (let a = qDegreesToRadians (angle / Fin 2);
          s = std_sin a;
          c = std_cos a;
          ax = v3_normalized axis
      in normalized (mkQuaternion c (vx ax * s) (vy ax * s) (vz ax * s)))"

definition fromAxisAndAngle_xyz :: "flt \<Rightarrow> flt \<Rightarrow> flt \<Rightarrow> flt \<Rightarrow> QQuaternion" where
  "fromAxisAndAngle_xyz x y z angle =
     (let length = qHypot3 x y z;
          scaled = (\<not> qFuzzyCompare length 1 \<and> \<not> qFuzzyIsNull length);
          x' = (if scaled then x / length else x);
          y' = (if scaled then y / length else y);
          z' = (if scaled then z / length else z);
          a = qDegreesToRadians (angle / Fin 2);
          s = std_sin a;
          c = std_cos a
      in normalized (mkQuaternion c (x' * s) (y' * s) (z' * s)))"

text \<open>The four results \<open>(x, y, z, angle)\<close> that the source writes through its pointers.\<close>

definition getAxisAndAngle :: "QQuaternion \<Rightarrow> flt \<times> flt \<times> flt \<times> flt" where
  "getAxisAndAngle q =
     (let length = qHypot3 (xp q) (yp q) (zp q) in
      if \<not> qFuzzyIsNull length then
        (if qFuzzyCompare length 1
         then (xp q, yp q, zp q, qRadiansToDegrees (Fin 2 * std_acos (wp q)))
         else (xp q / length, yp q / length, zp q / length,
               qRadiansToDegrees (Fin 2 * std_acos (wp q))))
      else (0, 0, 0, 0))"

subsection \<open>Euler angles\<close>

text \<open>The three results \<open>(pitch, yaw, roll)\<close>, in degrees.\<close>

definition getEulerAngles :: "QQuaternion \<Rightarrow> flt \<times> flt \<times> flt" where
  "getEulerAngles q =
     (let len = length_q q;
          rescale = (\<not> qFuzzyIsNull len);
          xps = (if rescale then xp q / len else xp q);
          yps = (if rescale then yp q / len else yp q);
          zps = (if rescale then zp q / len else zp q);
          wps = (if rescale then wp q / len else wp q);
          xx = xps * xps;
          xy = xps * yps;
          xz = xps * zps;
          xw = xps * wps;
          yy = yps * yps;
          yz = yps * zps;
          yw = yps * wps;
          zz = zps * zps;
          zw = zps * wps;
          epsilon = Fin (1 / 100000);
          sinp = Fin (- 2) * (yz - xw);
          (pitch, yaw, roll) =
            (if \<bar>sinp\<bar> < 1 - epsilon
             then (std_asin sinp,
                   std_atan2 (Fin 2 * (xz + yw)) (1 - Fin 2 * (xx + yy)),
                   std_atan2 (Fin 2 * (xy + zw)) (1 - Fin 2 * (xx + zz)))
             else (std_copysign float_pi_2 sinp, Fin 2 * std_atan2 yps wps, 0))
      in (qRadiansToDegrees pitch, qRadiansToDegrees yaw, qRadiansToDegrees roll))"

text \<open>
  The rescaled components \<^verbatim>\<open>wps, xps, yps, zps\<close> and the value \<^verbatim>\<open>sinp\<close> that
  \<^verbatim>\<open>getEulerAngles\<close> computes on its way, named to state which branch it takes.
\<close>

definition euler_rescaled :: "QQuaternion \<Rightarrow> QQuaternion" where
  "euler_rescaled q =
     (let len = length_q q;
          rescale = (\<not> qFuzzyIsNull len)
      in mkQuaternion (if rescale then wp q / len else wp q) (if rescale then xp q / len else xp q)
           (if rescale then yp q / len else yp q) (if rescale then zp q / len else zp q))"

definition euler_sinp :: "QQuaternion \<Rightarrow> flt" where
  "euler_sinp q =
     (let r = euler_rescaled q in Fin (- 2) * (yp r * zp r - xp r * wp r))"

definition fromEulerAngles :: "flt \<Rightarrow> flt \<Rightarrow> flt \<Rightarrow> QQuaternion" where
  "fromEulerAngles pitch0 yaw0 roll0 =
     (let pitch = qDegreesToRadians pitch0 * Fin (1 / 2);
          yaw = qDegreesToRadians yaw0 * Fin (1 / 2);
          roll = qDegreesToRadians roll0 * Fin (1 / 2);
          c1 = std_cos yaw;
          s1 = std_sin yaw;
          c2 = std_cos roll;
          s2 = std_sin roll;
          c3 = std_cos pitch;
          s3 = std_sin pitch;
          c1c2 = c1 * c2;
          s1s2 = s1 * s2;
          w = c1c2 * c3 + s1s2 * s3;
          x = c1c2 * s3 + s1s2 * c3;
          y = s1 * c2 * c3 - c1 * s2 * s3;
          z = c1 * s2 * c3 - s1 * c2 * s3
      in mkQuaternion w x y z)"

subsection \<open>Rotation matrices and axes\<close>

definition toRotationMatrix :: "QQuaternion \<Rightarrow> QMatrix3x3" where
  "toRotationMatrix q =
     (let f2x = xp q + xp q;
          f2y = yp q + yp q;
          f2z = zp q + zp q;
          f2xw = f2x * wp q;
          f2yw = f2y * wp q;
          f2zw = f2z * wp q;
          f2xx = f2x * xp q;
          f2xy = f2x * yp q;
          f2xz = f2x * zp q;
          f2yy = f2y * yp q;
          f2yz = f2y * zp q;
          f2zz = f2z * zp q
      in mkMatrix3x3
           (1 - (f2yy + f2zz)) (f2xy - f2zw) (f2xz + f2yw)
           (f2xy + f2zw) (1 - (f2xx + f2zz)) (f2yz - f2xw)
           (f2xz - f2yw) (f2yz + f2xw) (1 - (f2xx + f2yy)))"

text \<open>
  The array \<^verbatim>\<open>float axis[3]\<close> starts uninitialised in the source; each of its
  three entries is assigned before it is read, so its initial contents do not matter.
\<close>

definition fromRotationMatrix :: "QMatrix3x3 \<Rightarrow> QQuaternion" where
  "fromRotationMatrix rot3x3 =
     (let trace = rot3x3 0 0 + rot3x3 1 1 + rot3x3 2 2 in
      if trace > Fin (1 / 100000000) then
        (let s = Fin 2 * std_sqrt (trace + 1);
             scalar = Fin (1 / 4) * s;
             axis0 = (rot3x3 2 1 - rot3x3 1 2) / s;
             axis1 = (rot3x3 0 2 - rot3x3 2 0) / s;
             axis2 = (rot3x3 1 0 - rot3x3 0 1) / s
         in mkQuaternion scalar axis0 axis1 axis2)
      else
        (let s_next = [1, 2, 0 :: nat];
             i0 = (if rot3x3 1 1 > rot3x3 0 0 then 1 else 0);
             i = (if rot3x3 2 2 > rot3x3 i0 i0 then 2 else i0);
             j = s_next ! i;
             k = s_next ! j;
             s = Fin 2 * std_sqrt (rot3x3 i i - rot3x3 j j - rot3x3 k k + 1);
             scalar = (rot3x3 k j - rot3x3 j k) / s;
             axis = [0, 0, 0]
                      [i := Fin (1 / 4) * s,
                       j := (rot3x3 j i + rot3x3 i j) / s,
                       k := (rot3x3 k i + rot3x3 i k) / s]
         in mkQuaternion scalar (axis ! 0) (axis ! 1) (axis ! 2)))"

definition getAxes :: "QQuaternion \<Rightarrow> QVector3D \<times> QVector3D \<times> QVector3D" where
  "getAxes q =
     (let rot3x3 = toRotationMatrix q
      in (mkVector3D (rot3x3 0 0) (rot3x3 1 0) (rot3x3 2 0),
          mkVector3D (rot3x3 0 1) (rot3x3 1 1) (rot3x3 2 1),
          mkVector3D (rot3x3 0 2) (rot3x3 1 2) (rot3x3 2 2)))"

definition fromAxes :: "QVector3D \<Rightarrow> QVector3D \<Rightarrow> QVector3D \<Rightarrow> QQuaternion" where
  "fromAxes xAxis yAxis zAxis =
     fromRotationMatrix
       (mkMatrix3x3 (vx xAxis) (vx yAxis) (vx zAxis)
                    (vy xAxis) (vy yAxis) (vy zAxis)
                    (vz xAxis) (vz yAxis) (vz zAxis))"

subsection \<open>Directions\<close>

definition rotationTo :: "QVector3D \<Rightarrow> QVector3D \<Rightarrow> QQuaternion" where
  "rotationTo from to =
     (let v0 = v3_normalized from;
          v1 = v3_normalized to;
          d = v3_dotProduct v0 v1 + 1
      in if qFuzzyIsNull d then
           (let axis0 = v3_crossProduct (mkVector3D 1 0 0) v0;
                axis1 = (if qFuzzyIsNull (v3_lengthSquared axis0)
                         then v3_crossProduct (mkVector3D 0 1 0) v0 else axis0);
                axis = v3_normalize axis1
            in mkQuaternion 0 (vx axis) (vy axis) (vz axis))
         else
           (let d' = std_sqrt (Fin 2 * d);
                axis = v3_divide (v3_crossProduct v0 v1) d'
            in normalized (mkQuaternionV (d' * Fin (1 / 2)) axis)))"

definition fromDirection :: "QVector3D \<Rightarrow> QVector3D \<Rightarrow> QQuaternion" where
  "fromDirection direction up =
     (if qFuzzyIsNull (vx direction) \<and> qFuzzyIsNull (vy direction) \<and> qFuzzyIsNull (vz direction)
      then identityQuaternion
      else
        (let zAxis = v3_normalized direction;
             xAxis = v3_crossProduct up zAxis
         in if qFuzzyIsNull (v3_lengthSquared xAxis)
            then rotationTo (mkVector3D 0 0 1) zAxis
            else
              (let xAxis' = v3_normalize xAxis;
                   yAxis = v3_crossProduct zAxis xAxis'
               in fromAxes xAxis' yAxis zAxis)))"

subsection \<open>Interpolation\<close>

definition slerp :: "QQuaternion \<Rightarrow> QQuaternion \<Rightarrow> flt \<Rightarrow> QQuaternion" where
  "slerp q1 q2 t =
     (if t \<le> 0 then q1
      else if t \<ge> 1 then q2
      else
        (let dot0 = dotProduct q1 q2;
             q2b = (if dot0 < 0 then q_uminus q2 else q2);
             dot = (if dot0 < 0 then - dot0 else dot0);
             (factor1, factor2) =
               (if 1 - dot > Fin (1 / 10000000) then
                  (let angle = std_acos dot;
                       sinOfAngle = std_sin angle
                   in if sinOfAngle > Fin (1 / 10000000)
                      then (std_sin ((1 - t) * angle) / sinOfAngle,
                            std_sin (t * angle) / sinOfAngle)
                      else (1 - t, t))
                else (1 - t, t))
         in q_plus (q_times_factor q1 factor1) (q_times_factor q2b factor2)))"

definition nlerp :: "QQuaternion \<Rightarrow> QQuaternion \<Rightarrow> flt \<Rightarrow> QQuaternion" where
  "nlerp q1 q2 t =
     (if t \<le> 0 then q1
      else if t \<ge> 1 then q2
      else
        (let dot = dotProduct q1 q2;
             q2b = (if dot < 0 then q_uminus q2 else q2)
         in normalized (q_plus (q_times_factor q1 (1 - t)) (q_times_factor q2b t))))"

subsection \<open>Serialisation\<close>

text \<open>
  Modelled from the spec: \<^verbatim>\<open>QDataStream\<close> is the "generic external serialization
  facility" of QtCore, not among the source files. It is modelled as the sequence of
  the floats written and not yet read; a read from an empty stream yields \<open>0\<close>.
\<close>

type_synonym QDataStream = "flt list"

definition stream_write :: "QDataStream \<Rightarrow> flt \<Rightarrow> QDataStream" where
  "stream_write stream f = stream @ [f]"

definition stream_read :: "QDataStream \<Rightarrow> QDataStream \<times> flt" where
  "stream_read stream = (case stream of [] \<Rightarrow> ([], 0) | f # rest \<Rightarrow> (rest, f))"

definition write_quaternion :: "QDataStream \<Rightarrow> QQuaternion \<Rightarrow> QDataStream" where
  "write_quaternion stream quaternion =
     stream_write (stream_write (stream_write (stream_write stream (wp quaternion))
       (xp quaternion)) (yp quaternion)) (zp quaternion)"

definition read_quaternion :: "QDataStream \<Rightarrow> QQuaternion \<Rightarrow> QDataStream \<times> QQuaternion" where
  "read_quaternion stream quaternion =
     (let (s1, scalar) = stream_read stream;
          (s2, x) = stream_read s1;
          (s3, y) = stream_read s2;
          (s4, z) = stream_read s3
      in (s4, quaternion\<lparr>wp := scalar, xp := x, yp := y, zp := z\<rparr>))"


section \<open>Properties of rounding\<close>

lemma round_even_err: "\<bar>of_int (round_even x) - x\<bar> \<le> 1 / 2"
  unfolding round_even_def Let_def by (auto; linarith)

lemma round_even_of_int [simp]: "round_even (of_int n) = n"
  unfolding round_even_def by simp

lemma round_even_0 [simp]: "round_even 0 = 0"
  using round_even_of_int [of 0] by simp

lemma two_powi_pos: "0 < (2::real) powi n"
  by simp

lemma round_even_unique:
  assumes "\<bar>x - of_int n\<bar> < 1 / 2"
  shows "round_even x = n"
proof (cases "of_int n \<le> x")
  case True
  have "of_int n \<le> x" and "x < of_int n + 1" using True assms by linarith+
  then have f: "\<lfloor>x\<rfloor> = n" by (intro floor_unique)
  have "x - of_int n < 1 / 2" using assms by linarith
  then show ?thesis unfolding round_even_def Let_def f by simp
next
  case False
  have "of_int (n - 1) \<le> x" and "x < of_int (n - 1) + 1" using False assms by simp_all
  then have f: "\<lfloor>x\<rfloor> = n - 1" by (intro floor_unique)
  have "x - of_int (n - 1) > 1 / 2" using assms False by simp
  then show ?thesis unfolding round_even_def Let_def f by simp
qed

lemma round_even_nonneg: "0 \<le> x \<Longrightarrow> 0 \<le> round_even x"
  unfolding round_even_def Let_def by auto

lemma round_even_floor: "\<lfloor>x\<rfloor> \<le> round_even x" "round_even x \<le> \<lfloor>x\<rfloor> + 1"
  unfolding round_even_def Let_def by auto

lemma round_even_mono: "x \<le> y \<Longrightarrow> round_even x \<le> round_even y"
proof -
  assume xy: "x \<le> y"
  have "\<lfloor>x\<rfloor> \<le> \<lfloor>y\<rfloor>" using xy by (rule floor_mono)
  then consider "\<lfloor>x\<rfloor> = \<lfloor>y\<rfloor>" | "\<lfloor>x\<rfloor> + 1 \<le> \<lfloor>y\<rfloor>" by linarith
  then show ?thesis
  proof cases
    case 1
    then show ?thesis using xy unfolding round_even_def Let_def by auto
  next
    case 2
    then show ?thesis using round_even_floor(2) [of x] round_even_floor(1) [of y] by linarith
  qed
qed

lemma round_even_uminus: "round_even (- x) = - round_even x"
proof (cases "x \<in> \<int>")
  case True
  then obtain n where "x = of_int n" by (auto elim: Ints_cases)
  then show ?thesis by (simp flip: of_int_minus)
next
  case False
  then have ne: "x \<noteq> of_int \<lfloor>x\<rfloor>" by (metis Ints_of_int)
  then have f: "\<lfloor>- x\<rfloor> = - \<lfloor>x\<rfloor> - 1"
    by (simp add: floor_minus ceiling_altdef)
  have lt: "of_int \<lfloor>x\<rfloor> < x" using ne of_int_floor_le [of x] by linarith
  show ?thesis unfolding round_even_def Let_def f
    using lt by (auto; linarith)
qed

lemma floor_log2_bounds:
  assumes "x \<noteq> 0"
  shows "2 powi \<lfloor>log 2 \<bar>x\<bar>\<rfloor> \<le> \<bar>x\<bar>" and "\<bar>x\<bar> < 2 powi (\<lfloor>log 2 \<bar>x\<bar>\<rfloor> + 1)"
proof -
  have "0 < \<bar>x\<bar>" using assms by simp
  from floor_log_eq_powr_iff [OF this, of 2 "\<lfloor>log 2 \<bar>x\<bar>\<rfloor>"]
  have "2 powr real_of_int \<lfloor>log 2 \<bar>x\<bar>\<rfloor> \<le> \<bar>x\<bar> \<and> \<bar>x\<bar> < 2 powr (real_of_int \<lfloor>log 2 \<bar>x\<bar>\<rfloor> + 1)"
    by simp
  moreover have "real_of_int \<lfloor>log 2 \<bar>x\<bar>\<rfloor> + 1 = real_of_int (\<lfloor>log 2 \<bar>x\<bar>\<rfloor> + 1)" by simp
  ultimately show "2 powi \<lfloor>log 2 \<bar>x\<bar>\<rfloor> \<le> \<bar>x\<bar>" and "\<bar>x\<bar> < 2 powi (\<lfloor>log 2 \<bar>x\<bar>\<rfloor> + 1)"
    by (simp_all only: powr_real_of_int' [of 2, simplified])
qed

lemma floor_log2_eq:
  assumes "2 powi k \<le> \<bar>x\<bar>" and "\<bar>x\<bar> < 2 powi (k + 1)"
  shows "\<lfloor>log 2 \<bar>x\<bar>\<rfloor> = k"
proof -
  have pos: "0 < \<bar>x\<bar>" using assms(1) two_powi_pos [of k] by linarith
  have "2 powr real_of_int k \<le> \<bar>x\<bar> \<and> \<bar>x\<bar> < 2 powr (real_of_int k + 1)"
    using assms powr_real_of_int' [of 2 k] powr_real_of_int' [of 2 "k + 1"] by (simp add: add.commute)
  then show ?thesis
    using floor_log_eq_powr_iff [OF pos, of 2 k] by simp
qed

lemma ulp_exp_ge: "- 149 \<le> ulp_exp x"
  by (simp add: ulp_exp_def)

lemma ulp_exp_uminus [simp]: "ulp_exp (- x) = ulp_exp x"
  by (simp add: ulp_exp_def)

lemma ulp_exp_upper:
  assumes "x \<noteq> 0"
  shows "\<bar>x\<bar> < 2 powi (ulp_exp x + 24)"
proof -
  have "\<lfloor>log 2 \<bar>x\<bar>\<rfloor> + 1 \<le> ulp_exp x + 24" by (simp add: ulp_exp_def)
  then have "(2::real) powi (\<lfloor>log 2 \<bar>x\<bar>\<rfloor> + 1) \<le> 2 powi (ulp_exp x + 24)"
    by (intro power_int_increasing) simp_all
  with floor_log2_bounds(2) [OF assms] show ?thesis by linarith
qed

lemma ulp_exp_normal:
  assumes "2 powi (- 126) \<le> \<bar>x\<bar>"
  shows "2 powi (ulp_exp x + 23) \<le> \<bar>x\<bar>"
proof -
  have "0 < \<bar>x\<bar>" using assms two_powi_pos [of "- 126"] by linarith
  then have nz: "x \<noteq> 0" by auto
  have "- 126 \<le> \<lfloor>log 2 \<bar>x\<bar>\<rfloor>"
  proof (rule ccontr)
    assume "\<not> - 126 \<le> \<lfloor>log 2 \<bar>x\<bar>\<rfloor>"
    then have "\<lfloor>log 2 \<bar>x\<bar>\<rfloor> + 1 \<le> - 126" by linarith
    then have "(2::real) powi (\<lfloor>log 2 \<bar>x\<bar>\<rfloor> + 1) \<le> 2 powi (- 126)"
      by (intro power_int_increasing) simp_all
    with floor_log2_bounds(2) [OF nz] assms show False by linarith
  qed
  then have "ulp_exp x + 23 = \<lfloor>log 2 \<bar>x\<bar>\<rfloor>" unfolding ulp_exp_def by linarith
  with floor_log2_bounds(1) [OF nz] show ?thesis by simp
qed

lemma ulp_exp_eq:
  assumes "2 powi k \<le> \<bar>x\<bar>" and "\<bar>x\<bar> < 2 powi (k + 1)" and "- 126 \<le> k"
  shows "ulp_exp x = k - 23"
  using floor_log2_eq [OF assms(1,2)] assms(3) unfolding ulp_exp_def by linarith

lemma ulp_exp_subnormal:
  assumes "x \<noteq> 0" and "\<bar>x\<bar> < 2 powi (- 126)"
  shows "ulp_exp x = - 149"
proof -
  have "\<lfloor>log 2 \<bar>x\<bar>\<rfloor> < - 126"
  proof (rule ccontr)
    assume "\<not> \<lfloor>log 2 \<bar>x\<bar>\<rfloor> < - 126"
    then have "- 126 \<le> \<lfloor>log 2 \<bar>x\<bar>\<rfloor>" by linarith
    then have "(2::real) powi (- 126) \<le> 2 powi \<lfloor>log 2 \<bar>x\<bar>\<rfloor>"
      by (intro power_int_increasing) simp_all
    with floor_log2_bounds(1) [OF assms(1)] assms(2) show False by linarith
  qed
  then show ?thesis unfolding ulp_exp_def by linarith
qed

lemma rne_0 [simp]: "rne 0 = 0"
  by (simp add: rne_def)

lemma rne_uminus: "rne (- x) = - rne x"
  by (simp add: rne_def round_even_uminus)

lemma rne_nonneg: "0 \<le> x \<Longrightarrow> 0 \<le> rne x"
  by (simp add: rne_def round_even_nonneg)

lemma rne_nonpos: "x \<le> 0 \<Longrightarrow> rne x \<le> 0"
  using rne_nonneg [of "- x"] by (simp add: rne_uminus)

lemma rne_err_ulp: "\<bar>rne x - x\<bar> \<le> 2 powi ulp_exp x / 2"
proof (cases "x = 0")
  case True
  then show ?thesis by simp
next
  case False
  define u :: real where "u = 2 powi ulp_exp x"
  define a :: real where "a = of_int (round_even (x / u))"
  have u: "0 < u" by (simp add: u_def)
  have "\<bar>a - x / u\<bar> \<le> 1 / 2" unfolding a_def by (rule round_even_err)
  then have "\<bar>a - x / u\<bar> * u \<le> 1 / 2 * u"
    using u by (intro mult_right_mono) simp_all
  moreover have "\<bar>a - x / u\<bar> * u = \<bar>(a - x / u) * u\<bar>"
    using u by (simp add: abs_mult)
  moreover have "(a - x / u) * u = a * u - x"
    using u by (simp add: left_diff_distrib)
  ultimately have "\<bar>a * u - x\<bar> \<le> u / 2" by simp
  moreover have "rne x = a * u" using False by (simp add: rne_def a_def u_def)
  ultimately show ?thesis by (simp add: u_def)
qed

text \<open>
  The error of a rounding: at most one part in \<open>2\<^sup>2\<^sup>4\<close> of a number in the normal
  range, and at most \<open>2\<^sup>-\<^sup>1\<^sup>5\<^sup>0\<close> below it.
\<close>

lemma rne_err_normal:
  assumes "2 powi (- 126) \<le> \<bar>x\<bar>"
  shows "\<bar>rne x - x\<bar> \<le> \<bar>x\<bar> / 2 ^ 24"
proof -
  have "(2::real) powi (ulp_exp x + 23) = 2 powi ulp_exp x * 2 ^ 23"
    by (simp add: power_int_add)
  with ulp_exp_normal [OF assms] have "2 powi ulp_exp x * 2 ^ 23 \<le> \<bar>x\<bar>" by simp
  then have "2 powi ulp_exp x / 2 \<le> \<bar>x\<bar> / 2 ^ 24" by simp
  with rne_err_ulp [of x] show ?thesis by linarith
qed

lemma rne_err_subnormal:
  assumes "\<bar>x\<bar> < 2 powi (- 126)"
  shows "\<bar>rne x - x\<bar> \<le> 1 / 2 ^ 150"
proof (cases "x = 0")
  case True
  then show ?thesis by simp
next
  case False
  have "(2::real) powi (- 149) / 2 = 1 / 2 ^ 150"
    by (simp add: power_int_minus_divide)
  with rne_err_ulp [of x] ulp_exp_subnormal [OF False assms] show ?thesis by simp
qed

lemma rne_err: "\<bar>rne x - x\<bar> \<le> \<bar>x\<bar> / 2 ^ 24 + 1 / 2 ^ 150"
proof (cases "2 powi (- 126) \<le> \<bar>x\<bar>")
  case True
  from rne_err_normal [OF this] show ?thesis
    by (smt (verit) divide_nonneg_nonneg zero_le_power zero_le_one)
next
  case False
  then have "\<bar>x\<bar> < 2 powi (- 126)" by simp
  from rne_err_subnormal [OF this] show ?thesis
    by (smt (verit) divide_nonneg_nonneg abs_ge_zero zero_le_power)
qed

text \<open>A binary32 number rounds to itself.\<close>

lemma rne_exact:
  assumes m: "\<bar>m\<bar> < 2 ^ 24" and e: "- 149 \<le> e"
  shows "rne (of_int m * 2 powi e) = of_int m * 2 powi e"
proof (cases "m = 0")
  case True
  then show ?thesis by simp
next
  case False
  define x :: real where "x = of_int m * 2 powi e"
  have nz: "x \<noteq> 0" using False by (simp add: x_def)
  have "\<bar>x\<bar> = of_int \<bar>m\<bar> * 2 powi e" by (simp add: x_def abs_mult)
  also have "\<dots> < 2 ^ 24 * 2 powi e"
    using m by (intro mult_strict_right_mono) (simp_all flip: of_int_less_iff [where 'a = real])
  also have "\<dots> = 2 powi (e + 24)" by (simp add: power_int_add)
  finally have up: "\<bar>x\<bar> < 2 powi (e + 24)" .
  have "\<lfloor>log 2 \<bar>x\<bar>\<rfloor> < e + 24"
  proof (rule ccontr)
    assume "\<not> \<lfloor>log 2 \<bar>x\<bar>\<rfloor> < e + 24"
    then have "e + 24 \<le> \<lfloor>log 2 \<bar>x\<bar>\<rfloor>" by linarith
    then have "(2::real) powi (e + 24) \<le> 2 powi \<lfloor>log 2 \<bar>x\<bar>\<rfloor>"
      by (intro power_int_increasing) simp_all
    with floor_log2_bounds(1) [OF nz] up show False by linarith
  qed
  with e have pe: "ulp_exp x \<le> e" unfolding ulp_exp_def by linarith
  define p where "p = ulp_exp x"
  define d where "d = nat (e - p)"
  have e_eq: "e = p + int d" using pe by (simp add: d_def p_def)
  have pw: "(2::real) powi e = 2 powi p * 2 ^ d"
    unfolding e_eq by (simp add: power_int_add)
  have "x / 2 powi p = of_int m * 2 ^ d"
    unfolding x_def pw by simp
  also have "\<dots> = of_int (m * 2 ^ d)" by simp
  finally have "round_even (x / 2 powi p) = m * 2 ^ d"
    by (simp only: round_even_of_int)
  then have "real_of_int (round_even (x / 2 powi p)) * 2 powi p = of_int m * (2 powi p * 2 ^ d)"
    by simp
  also have "\<dots> = x" unfolding x_def pw ..
  finally show ?thesis using nz by (simp add: rne_def x_def p_def)
qed

text \<open>Rounding evaluated: in the binade of \<open>2\<^sup>k\<close>, and among the subnormal numbers.\<close>

lemma rne_binade:
  assumes "2 powi k \<le> \<bar>x\<bar>" and "\<bar>x\<bar> < 2 powi (k + 1)" and "- 126 \<le> k"
  shows "rne x = of_int (round_even (x / 2 powi (k - 23))) * 2 powi (k - 23)"
proof -
  have "0 < \<bar>x\<bar>" using assms(1) two_powi_pos [of k] by linarith
  then have "x \<noteq> 0" by auto
  then show ?thesis by (simp add: rne_def ulp_exp_eq [OF assms])
qed

lemma rne_tiny:
  assumes "\<bar>x\<bar> < 2 powi (- 126)"
  shows "rne x = of_int (round_even (x / 2 powi (- 149))) * 2 powi (- 149)"
proof (cases "x = 0")
  case True
  then show ?thesis by simp
next
  case False
  then show ?thesis by (simp add: rne_def ulp_exp_subnormal [OF False assms])
qed


section \<open>Evaluating the model\<close>

lemma flt_zero_one [simp]: "(0::flt) = Fin 0" "(1::flt) = Fin 1"
  by (simp_all add: zero_flt_def one_flt_def)

lemma is_finite_simps [simp]:
  "is_finite (Fin x)" "is_finite NegZero" "\<not> is_finite PInf" "\<not> is_finite NInf" "\<not> is_finite NaN"
  by (simp_all add: is_finite_def)

lemma val_simps [simp]: "val (Fin x) = x" "val NegZero = 0"
  by (simp_all add: val_def)

lemma signbit_simps [simp]:
  "signbit (Fin x) = (x < 0)" "signbit NegZero" "\<not> signbit PInf" "signbit NInf" "\<not> signbit NaN"
  by (simp_all add: signbit_def)

lemma is_finite_cases:
  assumes "is_finite a"
  obtains x where "a = Fin x" | "a = NegZero"
  using assms by (cases a) simp_all

lemma max_float_pos: "0 < max_float"
  by (simp add: max_float_def)

lemma to_float_not_NaN [simp]: "to_float s r \<noteq> NaN"
  by (simp add: to_float_def Let_def)

lemma is_finite_to_float: "is_finite (to_float s r) = (\<bar>rne r\<bar> \<le> max_float)"
  using max_float_pos by (auto simp add: to_float_def Let_def)

lemma val_to_float: "\<bar>rne r\<bar> \<le> max_float \<Longrightarrow> val (to_float s r) = rne r"
  by (auto simp add: to_float_def Let_def)

lemma to_float_Fin: "\<bar>rne r\<bar> \<le> max_float \<Longrightarrow> rne r \<noteq> 0 \<Longrightarrow> to_float s r = Fin (rne r)"
  by (auto simp add: to_float_def Let_def)

lemma to_float_zero: "rne r = 0 \<Longrightarrow> to_float s r = (if s then NegZero else Fin 0)"
  using max_float_pos by (auto simp add: to_float_def Let_def)

lemma to_float_PInf: "(to_float s r = PInf) = (max_float < rne r)"
  using max_float_pos by (auto simp add: to_float_def Let_def)

lemma to_float_NInf: "(to_float s r = NInf) = (rne r < - max_float)"
  using max_float_pos by (auto simp add: to_float_def Let_def)

text \<open>No overflow below \<open>2\<^sup>1\<^sup>2\<^sup>7\<close>.\<close>

lemma rne_abs_le: "\<bar>rne x\<bar> \<le> \<bar>x\<bar> + \<bar>x\<bar> / 2 ^ 24 + 1 / 2 ^ 150"
  using rne_err [of x] by linarith

lemma rne_no_overflow:
  assumes "\<bar>x\<bar> \<le> 2 ^ 127"
  shows "\<bar>rne x\<bar> \<le> max_float"
proof -
  have "\<bar>x\<bar> + \<bar>x\<bar> / 2 ^ 24 + 1 / 2 ^ 150 \<le> 2 ^ 127 + 2 ^ 127 / 2 ^ 24 + 1 / 2 ^ 150"
    using assms by (intro add_mono divide_right_mono) simp_all
  also have "\<dots> \<le> max_float" by (simp add: max_float_def)
  finally show ?thesis using rne_abs_le [of x] by linarith
qed

text \<open>Arithmetic on finite operands.\<close>

lemma is_finite_uminus [simp]: "is_finite (- a) = is_finite a"
  by (cases a) (simp_all add: uminus_flt_def fneg_def)

lemma val_uminus [simp]: "val (- a) = - val a"
  by (cases a) (simp_all add: uminus_flt_def fneg_def val_def)

lemma is_finite_abs [simp]: "is_finite \<bar>a\<bar> = is_finite a"
  by (cases a) (simp_all add: abs_flt_def)

lemma val_abs [simp]: "val \<bar>a\<bar> = \<bar>val a\<bar>"
  by (cases a) (simp_all add: abs_flt_def val_def)

lemma abs_finite: "is_finite a \<Longrightarrow> \<bar>a\<bar> = Fin \<bar>val a\<bar>"
  by (cases a) (simp_all add: abs_flt_def)

lemma abs_flt_simps [simp]:
  "\<bar>Fin x\<bar> = Fin \<bar>x\<bar>" "\<bar>NegZero\<bar> = Fin 0" "\<bar>PInf\<bar> = PInf" "\<bar>NInf\<bar> = PInf" "\<bar>NaN\<bar> = NaN"
  by (simp_all add: abs_flt_def)

lemma uminus_flt_simps [simp]:
  "- Fin x = (if x = 0 then NegZero else Fin (- x))" "- NegZero = Fin 0" "- PInf = NInf"
  "- NInf = PInf" "- NaN = NaN"
  by (simp_all add: uminus_flt_def fneg_def)

lemma plus_finite:
  "is_finite a \<Longrightarrow> is_finite b \<Longrightarrow>
   a + b = to_float (if val a + val b = 0 then signbit a \<and> signbit b else val a + val b < 0)
             (val a + val b)"
  by (cases a; cases b) (simp_all add: plus_flt_def fadd_def)

lemma neg_and_pos [simp]: "((x::real) < 0 \<and> 0 < x) = False"
  by auto

lemma minus_finite:
  "is_finite a \<Longrightarrow> is_finite b \<Longrightarrow>
   a - b = to_float (if val a - val b = 0 then signbit a \<and> \<not> signbit b else val a - val b < 0)
             (val a - val b)"
  by (cases a; cases b) (auto simp add: minus_flt_def fadd_def fneg_def)

lemma times_finite:
  "is_finite a \<Longrightarrow> is_finite b \<Longrightarrow> a * b = to_float (signbit a \<noteq> signbit b) (val a * val b)"
  by (cases a; cases b) (simp_all add: times_flt_def fmul_def)

lemma divide_finite:
  "is_finite a \<Longrightarrow> is_finite b \<Longrightarrow> val b \<noteq> 0 \<Longrightarrow>
   a / b = to_float (signbit a \<noteq> signbit b) (val a / val b)"
  by (cases a; cases b) (simp_all add: divide_flt_def fdiv_def)

lemma less_eq_finite: "is_finite a \<Longrightarrow> is_finite b \<Longrightarrow> (a \<le> b) = (val a \<le> val b)"
  by (cases a; cases b) (simp_all add: less_eq_flt_def)

lemma less_finite: "is_finite a \<Longrightarrow> is_finite b \<Longrightarrow> (a < b) = (val a < val b)"
  by (cases a; cases b) (simp_all add: less_flt_def)

lemma less_eq_Fin [simp]: "(Fin x \<le> Fin y) = (x \<le> y)"
  by (simp add: less_eq_flt_def)

lemma less_Fin [simp]: "(Fin x < Fin y) = (x < y)"
  by (simp add: less_flt_def)

lemma feq_Fin [simp]: "feq (Fin x) (Fin y) = (x = y)"
  by (simp add: feq_def)

lemma le_Fin_iff: "(a \<le> Fin c) = (a = NInf \<or> (is_finite a \<and> val a \<le> c))"
  by (cases a) (simp_all add: less_eq_flt_def)

lemma qFuzzyIsNull_iff: "qFuzzyIsNull f = (is_finite f \<and> \<bar>val f\<bar> \<le> 1 / 100000)"
  by (cases f) (simp_all add: qFuzzyIsNull_def less_eq_flt_def)

lemma qFuzzyIsNull_simps [simp]:
  "qFuzzyIsNull (Fin x) = (\<bar>x\<bar> \<le> 1 / 100000)" "qFuzzyIsNull NegZero" "\<not> qFuzzyIsNull PInf"
  "\<not> qFuzzyIsNull NInf" "\<not> qFuzzyIsNull NaN"
  by (simp_all add: qFuzzyIsNull_iff)

text \<open>The float of a positive number between two bounds in the normal range.\<close>

lemma to_float_pos:
  assumes "lo \<le> r" and "r \<le> hi" and "1 / 2 ^ 126 \<le> lo" and "hi \<le> 2 ^ 127"
  shows "to_float s r = Fin (rne r)" and "lo * (1 - 1 / 2 ^ 24) \<le> rne r"
    and "rne r \<le> hi * (1 + 1 / 2 ^ 24)"
proof -
  have lo: "0 < lo" using assms(3) by (smt (verit) divide_pos_pos zero_less_power)
  have "(2::real) powi (- 126) = 1 / 2 ^ 126" by (simp add: power_int_minus_divide)
  then have "2 powi (- 126) \<le> \<bar>r\<bar>" using assms(1,3) by simp
  from rne_err_normal [OF this] have err: "\<bar>rne r - r\<bar> \<le> r / 2 ^ 24"
    using assms(1) lo by simp
  have p24: "(2::real) ^ 24 = 16777216" by simp
  have e1: "r - r / 16777216 \<le> rne r" and e2: "rne r \<le> r + r / 16777216"
    using err unfolding p24 by linarith+
  have x1: "lo * (1 - 1 / 2 ^ 24) = lo - lo / 16777216"
    and x2: "hi * (1 + 1 / 2 ^ 24) = hi + hi / 16777216"
    by (simp_all add: algebra_simps)
  show l: "lo * (1 - 1 / 2 ^ 24) \<le> rne r" unfolding x1 using e1 assms(1) by linarith
  show h: "rne r \<le> hi * (1 + 1 / 2 ^ 24)" unfolding x2 using e2 assms(2) by linarith
  have "0 < lo * (1 - 1 / 2 ^ 24)" using lo by simp
  with l have pos: "0 < rne r" by linarith
  have "hi * (1 + 1 / 2 ^ 24) \<le> 2 ^ 127 * (1 + 1 / 2 ^ 24)"
    using assms(4) by (intro mult_right_mono) simp_all
  also have "\<dots> \<le> max_float" by (simp add: max_float_def)
  finally have "\<bar>rne r\<bar> \<le> max_float" using h pos by simp
  from to_float_Fin [OF this, of s] pos show "to_float s r = Fin (rne r)" by simp
qed

text \<open>Bounds of the sine and the cosine by their Taylor polynomials.\<close>

lemma sin_taylor3:
  fixes x :: real
  shows "\<bar>sin x - (x - x ^ 3 / 6)\<bar> \<le> \<bar>x\<bar> ^ 5 / 120"
proof -
  have "(\<Sum>m<5. sin_coeff m * x ^ m) = x - x ^ 3 / 6"
    by (simp add: eval_nat_numeral sin_coeff_Suc cos_coeff_Suc)
  with Maclaurin_sin_bound [of x 5] show ?thesis
    by (simp add: fact_numeral)
qed

lemma cos_taylor4:
  fixes x :: real
  shows "\<bar>cos x - (1 - x ^ 2 / 2 + x ^ 4 / 24)\<bar> \<le> \<bar>x\<bar> ^ 6 / 720"
proof -
  obtain t where t: "cos x = (\<Sum>m<6. cos_coeff m * x ^ m) + (cos (t + 1 / 2 * real 6 * pi) / fact 6) * x ^ 6"
    using Maclaurin_cos_expansion [of x 6] by blast
  have s: "(\<Sum>m<6. cos_coeff m * x ^ m) = 1 - x ^ 2 / 2 + x ^ 4 / 24"
    by (simp add: eval_nat_numeral sin_coeff_Suc cos_coeff_Suc)
  have "\<bar>(cos (t + 1 / 2 * real 6 * pi) / fact 6) * x ^ 6\<bar> \<le> 1 / 720 * \<bar>x\<bar> ^ 6"
    unfolding abs_mult power_abs
    by (intro mult_right_mono) (simp_all add: fact_numeral)
  with t s show ?thesis by simp
qed

lemma cos_lower:
  fixes x :: real
  shows "1 - x ^ 2 / 2 + x ^ 4 / 24 - x ^ 6 / 720 \<le> cos x"
proof -
  have "\<bar>x\<bar> ^ 6 = x ^ 6" by (simp add: power_even_abs)
  with cos_taylor4 [of x] show ?thesis by linarith
qed

lemma cos_upper:
  fixes x :: real
  shows "cos x \<le> 1 - x ^ 2 / 2 + x ^ 4 / 24 + x ^ 6 / 720"
proof -
  have "\<bar>x\<bar> ^ 6 = x ^ 6" by (simp add: power_even_abs)
  with cos_taylor4 [of x] show ?thesis by linarith
qed

lemma sin_lower:
  fixes x :: real
  assumes "0 \<le> x"
  shows "x - x ^ 3 / 6 - x ^ 5 / 120 \<le> sin x"
proof -
  have "\<bar>x\<bar> ^ 5 = x ^ 5" using assms by simp
  with sin_taylor3 [of x] show ?thesis by linarith
qed

lemma sin_upper:
  fixes x :: real
  assumes "0 \<le> x"
  shows "sin x \<le> x - x ^ 3 / 6 + x ^ 5 / 120"
proof -
  have "\<bar>x\<bar> ^ 5 = x ^ 5" using assms by simp
  with sin_taylor3 [of x] show ?thesis by linarith
qed

lemma pi_half_ge: "3 / 2 \<le> pi / 2"
proof (rule ccontr)
  assume "\<not> 3 / 2 \<le> pi / 2"
  then have "pi / 2 \<le> 3 / 2" by simp
  then have "cos (3 / 2) \<le> cos (pi / 2)"
    using pi_ge_two by (subst cos_mono_le_eq) simp_all
  moreover have "0 < cos (3 / 2 :: real)"
    using cos_lower [of "3 / 2"] by (simp add: power_divide)
  ultimately show False by simp
qed

text \<open>Operations on two finite numbers whose exact result rounds to a known number.\<close>

lemma Fin_times:
  assumes "rne (x * y) = z" and "z \<noteq> 0" and "\<bar>z\<bar> \<le> 2 ^ 127"
  shows "Fin x * Fin y = Fin z"
proof -
  have "\<bar>z\<bar> \<le> max_float" using assms(3) by (simp add: max_float_def)
  then show ?thesis
    using to_float_Fin [of "x * y" "(x < 0) \<noteq> (y < 0)"] assms(1,2) by (simp add: times_finite)
qed

lemma Fin_plus:
  assumes "rne (x + y) = z" and "z \<noteq> 0" and "\<bar>z\<bar> \<le> 2 ^ 127"
  shows "Fin x + Fin y = Fin z"
proof -
  have "\<bar>z\<bar> \<le> max_float" using assms(3) by (simp add: max_float_def)
  then show ?thesis
    using to_float_Fin [of "x + y"] assms(1,2) by (simp add: plus_finite)
qed

lemma Fin_minus:
  assumes "rne (x - y) = z" and "z \<noteq> 0" and "\<bar>z\<bar> \<le> 2 ^ 127"
  shows "Fin x - Fin y = Fin z"
proof -
  have "\<bar>z\<bar> \<le> max_float" using assms(3) by (simp add: max_float_def)
  then show ?thesis
    using to_float_Fin [of "x - y"] assms(1,2) by (simp add: minus_finite)
qed

lemma Fin_divide:
  assumes "y \<noteq> 0" and "rne (x / y) = z" and "z \<noteq> 0" and "\<bar>z\<bar> \<le> 2 ^ 127"
  shows "Fin x / Fin y = Fin z"
proof -
  have "\<bar>z\<bar> \<le> max_float" using assms(4) by (simp add: max_float_def)
  then show ?thesis
    using to_float_Fin [of "x / y" "(x < 0) \<noteq> (y < 0)"] assms(1,2,3) by (simp add: divide_finite)
qed

lemma Fin_zero_times [simp]: "0 \<le> y \<Longrightarrow> Fin 0 * Fin y = Fin 0" "0 \<le> y \<Longrightarrow> Fin y * Fin 0 = Fin 0"
  by (simp_all add: times_finite to_float_zero)

lemma Fin_plus_zero [simp]: "Fin 0 + Fin 0 = Fin 0"
  by (simp add: plus_finite to_float_zero)

lemma Fin_minus_self [simp]: "Fin x - Fin x = Fin 0"
  by (simp add: minus_finite to_float_zero)

section \<open>Serialisation order\<close>

text \<open>
  Claim C9. Writing a quaternion appends its four components to the stream in the order
  scalar, x, y, z; reading takes four values from the stream in that order and stores them
  as scalar, x, y, z; so a quaternion written to a stream and read back, whatever follows
  it in the stream and whatever the target held before, has the same four components.
\<close>

theorem stream_roundtrip:
  "write_quaternion stream q = stream @ [wp q, xp q, yp q, zp q] \<and>
   read_quaternion (scalar # x # y # z # rest) (q0 :: QQuaternion) =
     (rest, \<lparr>wp = scalar, xp = x, yp = y, zp = z\<rparr>) \<and>
   read_quaternion (write_quaternion [] (q :: QQuaternion) @ rest) q0 = (rest, q)"
  by (simp add: write_quaternion_def read_quaternion_def stream_write_def stream_read_def)

section \<open>The zero direction\<close>

text \<open>
  Claim C10. \<^verbatim>\<open>fromDirection\<close> returns the identity quaternion whenever each of the
  three components of the direction is fuzzily zero, whatever the up vector. The test is
  made component by component: the direction \<open>(0.00001, 0.00001, 0.00001)\<close> is not
  zero, its length is not fuzzily zero, and it is mapped to the identity.
\<close>

theorem fromDirection_fuzzy_zero:
  "(qFuzzyIsNull (vx direction) \<and> qFuzzyIsNull (vy direction) \<and> qFuzzyIsNull (vz direction) \<longrightarrow>
      fromDirection direction up = identityQuaternion) \<and>
   \<not> feq (vx (mkVector3D (Fin (1 / 100000)) (Fin (1 / 100000)) (Fin (1 / 100000)))) 0 \<and>
   \<not> qFuzzyIsNull (v3_length (mkVector3D (Fin (1 / 100000)) (Fin (1 / 100000)) (Fin (1 / 100000)))) \<and>
   fromDirection (mkVector3D (Fin (1 / 100000)) (Fin (1 / 100000)) (Fin (1 / 100000))) up =
     identityQuaternion"
proof -
  define r :: real where "r = sqrt (3 / 10000000000)"
  have lo: "17 / 1000000 < r"
    unfolding r_def by (rule real_less_rsqrt) (simp add: power2_eq_square)
  have hi: "r < 2 / 100000"
    unfolding r_def by (rule real_less_lsqrt) (simp_all add: power2_eq_square)
  have err: "\<bar>rne r - r\<bar> \<le> \<bar>r\<bar> / 2 ^ 24 + 1 / 2 ^ 150" by (rule rne_err)
  have "r / 2 ^ 24 \<le> 2 / 100000 / 2 ^ 24" using hi by (intro divide_right_mono) simp_all
  with err lo hi have big: "1 / 100000 < rne r" by simp
  have "\<bar>r\<bar> \<le> 2 ^ 127" using lo hi by simp
  then have fin: "\<bar>rne r\<bar> \<le> max_float" by (rule rne_no_overflow)
  have len: "v3_length (mkVector3D (Fin (1 / 100000)) (Fin (1 / 100000)) (Fin (1 / 100000))) = Fin (rne r)"
    using to_float_Fin [OF fin, of False] big
    by (simp add: v3_length_def qHypot3_def mkVector3D_def r_def)
  show ?thesis
    unfolding len using big by (simp add: fromDirection_def mkVector3D_def)
qed

theorem fromDirection_fuzzy_zero_witness:
  "qFuzzyIsNull (vx (mkVector3D (Fin (1 / 200000)) 0 0)) \<and>
   qFuzzyIsNull (vy (mkVector3D (Fin (1 / 200000)) 0 0)) \<and>
   qFuzzyIsNull (vz (mkVector3D (Fin (1 / 200000)) 0 0)) \<and>
   fromDirection (mkVector3D (Fin (1 / 200000)) 0 0) (mkVector3D 0 1 0) = identityQuaternion"
  using fromDirection_fuzzy_zero [of "mkVector3D (Fin (1 / 200000)) 0 0" "mkVector3D 0 1 0"]
  by (simp add: mkVector3D_def)


section \<open>Spherical interpolation\<close>

lemma ge_one_not_le_zero: "(1::flt) \<le> t \<Longrightarrow> \<not> t \<le> 0"
  by (cases t) (simp_all add: less_eq_flt_def)



text \<open>
  A short quaternion: with \<open>q = (scalar 1/2, vector 0)\<close> and \<open>t = 1/2\<close> the source
  takes the trigonometric branch, and the scalar of \<^verbatim>\<open>slerp(q, q, t)\<close> is at least
  \<open>11/20\<close>.
\<close>

lemma arccos_quarter: "13 / 10 \<le> arccos (1 / 4)" "arccos (1 / 4) \<le> pi / 2"
proof -
  have c: "1 / 4 \<le> cos (13 / 10 :: real)"
    using cos_lower [of "13 / 10"] by (simp add: power_divide)
  have "arccos (cos (13 / 10)) = 13 / 10"
    using pi_ge_two by (intro arccos_cos) simp_all
  moreover have "arccos (cos (13 / 10)) \<le> arccos (1 / 4)"
    using c by (subst arccos_le_mono) simp_all
  ultimately show "13 / 10 \<le> arccos (1 / 4)" by simp
  show "arccos (1 / 4) \<le> pi / 2" by (rule arccos_le_pi2) simp_all
qed

lemma slerp_short_instance:
  obtains w where
    "slerp (mkQuaternion (Fin (1 / 2)) 0 0 0) (mkQuaternion (Fin (1 / 2)) 0 0 0) (Fin (1 / 2)) =
       mkQuaternion (Fin w) 0 0 0" and "11 / 20 \<le> w" and "w \<le> 5"
proof -
  have p24: "(2::real) ^ 24 = 16777216" by simp
  have ww: "Fin (1 / 2) * Fin (1 / 2) = Fin (1 / 4)"
    by (rule Fin_times, subst rne_binade [of "- 2"]) (simp_all add: round_even_def)
  have d0: "Fin (1 / 4) + Fin 0 = Fin (1 / 4)"
    by (rule Fin_plus, subst rne_binade [of "- 2"]) (simp_all add: round_even_def)
  have d1: "Fin 1 - Fin (1 / 4) = Fin (3 / 4)"
    by (rule Fin_minus, subst rne_binade [of "- 1"]) (simp_all add: round_even_def)
  have h1: "Fin 1 - Fin (1 / 2) = Fin (1 / 2)"
    by (rule Fin_minus, subst rne_binade [of "- 1"]) (simp_all add: round_even_def)
  define A where "A = rne (arccos (1 / 4))"
  have A: "to_float s (arccos (1 / 4)) = Fin A"
    and Al: "13 / 10 * (1 - 1 / 2 ^ 24) \<le> A" and Ah: "A \<le> pi / 2 * (1 + 1 / 2 ^ 24)" for s
    unfolding A_def using arccos_quarter pi_half_le_two
    by (intro to_float_pos [of "13 / 10" "arccos (1 / 4)" "pi / 2"]; simp)+
  have Alo: "1299 / 1000 \<le> A" using Al by simp
  have Ahi: "A \<le> 21 / 10" using Ah pi_half_le_two unfolding p24 by simp
  define H where "H = rne (1 / 2 * A)"
  have H: "to_float s (1 / 2 * A) = Fin H"
    and Hl: "1299 / 2000 * (1 - 1 / 2 ^ 24) \<le> H"
    and Hh: "H \<le> pi / 4 * (1 + 1 / 2 ^ 24) * (1 + 1 / 2 ^ 24)" for s
    unfolding H_def using Alo Ah pi_half_le_two
    by (intro to_float_pos [of "1299 / 2000" "1 / 2 * A" "pi / 4 * (1 + 1 / 2 ^ 24)"]; simp)+
  have H1: "649 / 1000 \<le> H" using Hl by simp
  have H2: "H \<le> pi / 2"
  proof -
    have "pi / 4 * (1 + 1 / 2 ^ 24) * (1 + 1 / 2 ^ 24) \<le> pi / 4 * 2"
      by (simp add: p24)
    with Hh show ?thesis by linarith
  qed
  have "sin (649 / 1000) \<le> sin H"
    using H1 H2 by (intro sin_monotone_2pi_le) simp_all
  moreover have "3 / 5 \<le> sin (649 / 1000 :: real)"
    using sin_lower [of "649 / 1000"] by (simp add: power_divide)
  ultimately have sH: "3 / 5 \<le> sin H" by simp
  define SH where "SH = rne (sin H)"
  have SH: "to_float s (sin H) = Fin SH"
    and SHl: "3 / 5 * (1 - 1 / 2 ^ 24) \<le> SH" and SHh: "SH \<le> 1 * (1 + 1 / 2 ^ 24)" for s
    unfolding SH_def using sH by (intro to_float_pos [of "3 / 5" "sin H" 1]; simp)+
  have sA: "9 / 10 \<le> sin A"
  proof -
    have base: "9 / 10 \<le> sin (1299 / 1000 :: real)"
      using sin_lower [of "1299 / 1000"] by (simp add: power_divide)
    show ?thesis
    proof (cases "A \<le> pi / 2")
      case True
      then have "sin (1299 / 1000) \<le> sin A"
        using Alo by (intro sin_monotone_2pi_le) simp_all
      with base show ?thesis by simp
    next
      case False
      have "pi - A \<le> pi / 2" using False by simp
      moreover have "1299 / 1000 \<le> pi - A"
        using Ah pi_half_ge pi_less_4 unfolding p24 by simp
      ultimately have "sin (1299 / 1000) \<le> sin (pi - A)"
        by (intro sin_monotone_2pi_le) simp_all
      with base show ?thesis by simp
    qed
  qed
  define S where "S = rne (sin A)"
  have S: "to_float s (sin A) = Fin S"
    and Sl: "9 / 10 * (1 - 1 / 2 ^ 24) \<le> S" and Sh: "S \<le> 1 * (1 + 1 / 2 ^ 24)" for s
    unfolding S_def using sA by (intro to_float_pos [of "9 / 10" "sin A" 1]; simp)+
  have Spos: "0 < S" using Sl by simp
  have q1: "59 / 100 \<le> SH / S"
  proof -
    have "59 / 100 * S \<le> SH" using Sh SHl by simp
    then show ?thesis using Spos by (simp add: pos_le_divide_eq)
  qed
  have q2: "SH / S \<le> 2"
  proof -
    have "SH \<le> 2 * S" using Sl SHh by simp
    then show ?thesis using Spos by (simp add: pos_divide_le_eq)
  qed
  define F where "F = rne (SH / S)"
  have F: "to_float s (SH / S) = Fin F"
    and Fl: "59 / 100 * (1 - 1 / 2 ^ 24) \<le> F" and Fh: "F \<le> 2 * (1 + 1 / 2 ^ 24)" for s
    unfolding F_def using q1 q2 by (intro to_float_pos [of "59 / 100" "SH / S" 2]; simp)+
  define W1 where "W1 = rne (1 / 2 * F)"
  have W1: "to_float s (1 / 2 * F) = Fin W1"
    and W1l: "29 / 100 * (1 - 1 / 2 ^ 24) \<le> W1" and W1h: "W1 \<le> 2 * (1 + 1 / 2 ^ 24)" for s
    unfolding W1_def using Fl Fh by (intro to_float_pos [of "29 / 100" "1 / 2 * F" 2]; simp)+
  define W where "W = rne (W1 + W1)"
  have W: "to_float s (W1 + W1) = Fin W"
    and Wl: "57 / 100 * (1 - 1 / 2 ^ 24) \<le> W" and Wh: "W \<le> 9 / 2 * (1 + 1 / 2 ^ 24)" for s
    unfolding W_def using W1l W1h by (intro to_float_pos [of "57 / 100" "W1 + W1" "9 / 2"]; simp)+
  have Fpos: "0 < F" using Fl by simp
  have e1: "std_acos (Fin (1 / 4)) = Fin A" by (simp add: std_acos_def A)
  have e2: "std_sin (Fin A) = Fin S" by (simp add: std_sin_def S)
  have e3: "Fin (1 / 2) * Fin A = Fin H" using H by (simp add: times_finite)
  have e4: "std_sin (Fin H) = Fin SH" by (simp add: std_sin_def SH)
  have e5: "Fin SH / Fin S = Fin F" using Spos F by (simp add: divide_finite)
  have e6: "Fin (1 / 2) * Fin F = Fin W1" using W1 by (simp add: times_finite)
  have e7: "Fin 0 * Fin F = Fin 0" using Fpos by simp
  have e8: "Fin W1 + Fin W1 = Fin W" using W by (simp add: plus_finite)
  have e9: "1 / 10000000 < S" using Sl by simp
  have "slerp (mkQuaternion (Fin (1 / 2)) 0 0 0) (mkQuaternion (Fin (1 / 2)) 0 0 0) (Fin (1 / 2)) =
       mkQuaternion (Fin W) 0 0 0"
    using ww d0 d1 h1 e9
    by (simp add: slerp_def dotProduct_def mkQuaternion_def q_plus_def q_times_factor_def
         e1 e2 e3 e4 e5 e6 e7 e8)
  moreover have "11 / 20 \<le> W" using Wl by simp
  moreover have "W \<le> 5" using Wh by simp
  ultimately show ?thesis using that by blast
qed

text \<open>
  A unit quaternion of binary32: \<open>q = (0.6f; 0.8f, 0, 0)\<close>, whose squared length
  and length are computed as \<open>1\<close>, and \<open>t = 0.1f\<close>. The source takes the linear branch and
  rounds \<open>0.8f (1 - t) + 0.8f t\<close> to the float below \<open>0.8f\<close>.
\<close>

lemma slerp_unit_instance:
  "slerp (mkQuaternion (Fin (5033165 / 2 ^ 23)) (Fin (13421773 / 2 ^ 24)) 0 0)
         (mkQuaternion (Fin (5033165 / 2 ^ 23)) (Fin (13421773 / 2 ^ 24)) 0 0)
         (Fin (13421773 / 2 ^ 27)) =
   mkQuaternion (Fin (5033165 / 2 ^ 23)) (Fin (3355443 / 2 ^ 22)) 0 0"
  "lengthSquared (mkQuaternion (Fin (5033165 / 2 ^ 23)) (Fin (13421773 / 2 ^ 24)) 0 0) = 1"
  "length_q (mkQuaternion (Fin (5033165 / 2 ^ 23)) (Fin (13421773 / 2 ^ 24)) 0 0) = 1"
proof -
  have ww: "Fin (5033165 / 2 ^ 23) * Fin (5033165 / 2 ^ 23) = Fin (3019899 / 2 ^ 23)"
    by (rule Fin_times, subst rne_binade [of "- 2"]) (simp_all add: round_even_def)
  have xx: "Fin (13421773 / 2 ^ 24) * Fin (13421773 / 2 ^ 24) = Fin (10737419 / 2 ^ 24)"
    by (rule Fin_times, subst rne_binade [of "- 1"]) (simp_all add: round_even_def)
  have s1: "Fin (3019899 / 2 ^ 23) + Fin (10737419 / 2 ^ 24) = Fin 1"
    by (rule Fin_plus, subst rne_binade [of "0"]) (simp_all add: round_even_def)
  have s1': "Fin (10737419 / 2 ^ 24) + Fin (3019899 / 2 ^ 23) = Fin 1"
    by (rule Fin_plus, subst rne_binade [of "0"]) (simp_all add: round_even_def)
  have s0: "Fin (10737419 / 2 ^ 24) + Fin 0 = Fin (10737419 / 2 ^ 24)"
    by (rule Fin_plus, subst rne_binade [of "- 1"]) (simp_all add: round_even_def)
  have s2: "Fin 1 + Fin 0 = Fin 1"
    by (rule Fin_plus, subst rne_binade [of "0"]) (simp_all add: round_even_def)
  have f1: "Fin 1 - Fin (13421773 / 2 ^ 27) = Fin (7549747 / 2 ^ 23)"
    by (rule Fin_minus, subst rne_binade [of "- 1"]) (simp_all add: round_even_def)
  have w1: "Fin (5033165 / 2 ^ 23) * Fin (7549747 / 2 ^ 23) = Fin (9059697 / 2 ^ 24)"
    by (rule Fin_times, subst rne_binade [of "- 1"]) (simp_all add: round_even_def)
  have w2: "Fin (5033165 / 2 ^ 23) * Fin (13421773 / 2 ^ 27) = Fin (1006633 / 2 ^ 24)"
    by (rule Fin_times, subst rne_binade [of "- 5"]) (simp_all add: round_even_def)
  have x1: "Fin (13421773 / 2 ^ 24) * Fin (7549747 / 2 ^ 23) = Fin (12079595 / 2 ^ 24)"
    by (rule Fin_times, subst rne_binade [of "- 1"]) (simp_all add: round_even_def)
  have x2: "Fin (13421773 / 2 ^ 24) * Fin (13421773 / 2 ^ 27) = Fin (10737419 / 2 ^ 27)"
    by (rule Fin_times, subst rne_binade [of "- 4"]) (simp_all add: round_even_def)
  have rw: "Fin (9059697 / 2 ^ 24) + Fin (1006633 / 2 ^ 24) = Fin (5033165 / 2 ^ 23)"
    by (rule Fin_plus, subst rne_binade [of "- 1"]) (simp_all add: round_even_def)
  have rx: "Fin (12079595 / 2 ^ 24) + Fin (10737419 / 2 ^ 27) = Fin (3355443 / 2 ^ 22)"
    by (rule Fin_plus, subst rne_binade [of "- 1"]) (simp_all add: round_even_def)
  show "slerp (mkQuaternion (Fin (5033165 / 2 ^ 23)) (Fin (13421773 / 2 ^ 24)) 0 0)
         (mkQuaternion (Fin (5033165 / 2 ^ 23)) (Fin (13421773 / 2 ^ 24)) 0 0)
         (Fin (13421773 / 2 ^ 27)) =
     mkQuaternion (Fin (5033165 / 2 ^ 23)) (Fin (3355443 / 2 ^ 22)) 0 0"
    using ww xx s1 s2 f1 w1 w2 x1 x2 rw rx
    by (simp add: slerp_def dotProduct_def mkQuaternion_def q_plus_def q_times_factor_def)
  show "lengthSquared (mkQuaternion (Fin (5033165 / 2 ^ 23)) (Fin (13421773 / 2 ^ 24)) 0 0) = 1"
    using ww xx s0 s1'
    by (simp add: lengthSquared_def mkQuaternion_def)
  define v :: real where "v = 281474990132429 / 2 ^ 48"
  have "1 \<le> sqrt v" by (simp add: v_def)
  moreover have "sqrt v < 1 + 1 / 2 ^ 25"
    by (rule real_less_lsqrt) (simp_all add: v_def power2_eq_square)
  ultimately have "\<bar>sqrt v / 2 powi (- 23) - of_int (2 ^ 23)\<bar> < 1 / 2"
    by (simp add: power_int_minus_divide)
  then have "round_even (sqrt v / 2 powi (- 23)) = 2 ^ 23" by (rule round_even_unique)
  moreover have "rne (sqrt v) = of_int (round_even (sqrt v / 2 powi (0 - 23))) * 2 powi (0 - 23)"
    using \<open>1 \<le> sqrt v\<close> \<open>sqrt v < 1 + 1 / 2 ^ 25\<close> by (intro rne_binade) simp_all
  ultimately have "rne (sqrt v) = 1" by (simp add: power_int_minus_divide)
  then show "length_q (mkQuaternion (Fin (5033165 / 2 ^ 23)) (Fin (13421773 / 2 ^ 24)) 0 0) = 1"
    using to_float_Fin [of "sqrt v" False]
    by (simp add: length_q_def qHypot4_def mkQuaternion_def v_def max_float_def)
qed



end
